theory Spec2Isabelle
  imports Complex_Main
begin

section \<open>Numbers\<close>

text \<open>
  The program computes with JavaScript numbers, which are IEEE 754 binary64 values. The
  numbers handed to it (coordinates, sizes) are finite and are modelled as \<open>real\<close>. A
  division can have a zero divisor, where JavaScript does not fail but yields \<open>Infinity\<close>,
  \<open>-Infinity\<close> or \<open>NaN\<close>; HOL's \<open>a / 0 = 0\<close> would be a different program, so the result
  of a division is a \<open>jsnum\<close>. Every divisor of the program is a product or a square root of
  non-negative numbers, so a zero divisor is \<open>+0\<close>.

  The face ratio of the spoof scorer is compared with the literals 0.05 and 0.4, and a
  rounding step decides the comparison next to them: its two products and its quotient are
  rounded to binary64, to nearest with ties to even, as IEEE 754 and ECMAScript fix them.
  All other arithmetic of the model is exact. The distances of the program go through
  \<open>Math.pow\<close> and \<open>Math.sqrt\<close>, and ECMAScript leaves the value of \<open>Math.pow\<close> to the
  implementation, so the language fixes no rounding for them; the centres and the scores
  are kept exact with them. What is stated below about distances and scores is therefore
  stated of exact arithmetic.
\<close>

datatype jsnum = Finite real | PosInf | NegInf | NaN

definition js_div :: "real \<Rightarrow> real \<Rightarrow> jsnum" where
  "js_div a b =
     (if b \<noteq> 0 then Finite (a / b)
      else if 0 < a then PosInf
      else if a < 0 then NegInf
      else NaN)"

fun js_add :: "jsnum \<Rightarrow> jsnum \<Rightarrow> jsnum" where
  "js_add (Finite a) (Finite b) = Finite (a + b)"
| "js_add NaN _ = NaN"
| "js_add _ NaN = NaN"
| "js_add PosInf NegInf = NaN"
| "js_add NegInf PosInf = NaN"
| "js_add PosInf _ = PosInf"
| "js_add _ PosInf = PosInf"
| "js_add NegInf _ = NegInf"
| "js_add _ NegInf = NegInf"

text \<open>Division of a number that may be infinite by the literal 2.\<close>

fun js_half :: "jsnum \<Rightarrow> jsnum" where
  "js_half (Finite a) = Finite (a / 2)"
| "js_half PosInf = PosInf"
| "js_half NegInf = NegInf"
| "js_half NaN = NaN"

text \<open>The comparisons \<open><\<close> and \<open>>\<close> against a finite literal; any comparison with \<open>NaN\<close> is false.\<close>

fun js_lt :: "jsnum \<Rightarrow> real \<Rightarrow> bool" where
  "js_lt (Finite a) c = (a < c)"
| "js_lt PosInf c = False"
| "js_lt NegInf c = True"
| "js_lt NaN c = False"

fun js_gt :: "jsnum \<Rightarrow> real \<Rightarrow> bool" where
  "js_gt (Finite a) c = (a > c)"
| "js_gt PosInf c = True"
| "js_gt NegInf c = False"
| "js_gt NaN c = False"

subsection \<open>Rounding to binary64\<close>

text \<open>\<open>pow2 k\<close> is \<open>2\<close> to the power \<open>k\<close>, for an integer \<open>k\<close>.\<close>

definition pow2 :: "int \<Rightarrow> real" where
  "pow2 k = (if 0 \<le> k then 2 ^ nat k else 1 / 2 ^ nat (- k))"

definition roundHalfEven :: "real \<Rightarrow> int" where
  "roundHalfEven n =
     (let f = \<lfloor>n\<rfloor>
      in if n - of_int f < 1 / 2 then f
         else if n - of_int f > 1 / 2 then f + 1
         else if even f then f else f + 1)"

text \<open>
  The binary64 value nearest to a real number. With \<open>e\<close> the binary exponent of \<open>x\<close> (not
  below \<open>-1022\<close>, where the subnormal numbers begin), the binary64 numbers around \<open>x\<close> are the
  integer multiples of \<open>2\<close> to the \<open>e - 52\<close>; a result of magnitude \<open>2\<close> to the \<open>1024\<close> is
  an overflow. The sign of a zero is not kept.
\<close>

definition binary64 :: "real \<Rightarrow> jsnum" where
  "binary64 x =
     (if x = 0 then Finite 0
      else
        let e = max \<lfloor>log 2 \<bar>x\<bar>\<rfloor> (- 1022);
            ulp = pow2 (e - 52);
            y = of_int (roundHalfEven (x / ulp)) * ulp
        in if \<bar>y\<bar> < 2 ^ 1024 then Finite y
           else if 0 < x then PosInf else NegInf)"

text \<open>The quotient of two binary64 values, rounded.\<close>

fun js_divide :: "jsnum \<Rightarrow> jsnum \<Rightarrow> jsnum" where
  "js_divide (Finite a) (Finite b) =
     (if b \<noteq> 0 then binary64 (a / b)
      else if 0 < a then PosInf
      else if a < 0 then NegInf
      else NaN)"
| "js_divide NaN _ = NaN"
| "js_divide _ NaN = NaN"
| "js_divide (Finite a) PosInf = Finite 0"
| "js_divide (Finite a) NegInf = Finite 0"
| "js_divide PosInf (Finite b) = (if 0 \<le> b then PosInf else NegInf)"
| "js_divide NegInf (Finite b) = (if 0 \<le> b then NegInf else PosInf)"
| "js_divide PosInf PosInf = NaN"
| "js_divide PosInf NegInf = NaN"
| "js_divide NegInf PosInf = NaN"
| "js_divide NegInf NegInf = NaN"

text \<open>The literals \<open>0.05\<close> and \<open>0.4\<close> as binary64 values (\<open>binary64_literals\<close> below).\<close>

definition double_0_05 :: real where
  "double_0_05 = 3602879701896397 / 2 ^ 56"

definition double_0_4 :: real where
  "double_0_4 = 3602879701896397 / 2 ^ 53"

section \<open>Data\<close>

record point =
  pt_x :: real
  pt_y :: real

record box =
  box_x :: real
  box_y :: real
  box_width :: real
  box_height :: real

text \<open>
  The landmarks object of the face detector, by what \<open>getLeftEye()\<close> and \<open>getRightEye()\<close>
  return: arrays of points.
\<close>

record landmarks =
  getLeftEye :: "point list"
  getRightEye :: "point list"

text \<open>
  A detection: \<open>detection.detection.box\<close> and \<open>detection.landmarks\<close> (which the blink
  detector allows to be absent).
\<close>

record detection =
  det_box :: box
  det_landmarks :: "landmarks option"

record video =
  videoWidth :: nat
  videoHeight :: nat

record spoof_details =
  sizeConsistency :: bool
  positionStability :: real

record spoof_verdict =
  isSpoofed :: bool
  confidence :: real
  details :: "spoof_details option"

text \<open>
  The module-level variables of the anti-spoofing module. \<open>progressReports\<close> is not a
  variable of the module: it records, newest last, the arguments \<open>(blinks, required)\<close> of
  the calls made to the caller's \<open>onProgress\<close> callback.
\<close>

record module_state =
  blinkCount :: nat
  headMovementDetected :: bool
  lastFacePosition :: "point option"
  blinkDetectionActive :: bool
  progressReports :: "(nat \<times> nat) list"

record liveness_verdict =
  success :: bool
  blinks :: nat
  headMovement :: bool

section \<open>Spoof scoring\<close>

definition currentPosition :: "box \<Rightarrow> point" where
  "currentPosition b =
     \<lparr>pt_x = box_x b + box_width b / 2, pt_y = box_y b + box_height b / 2\<rparr>"

text \<open>The expression \<open>Math.sqrt(Math.pow(dx, 2) + Math.pow(dy, 2))\<close> of both functions.\<close>

definition movement :: "point \<Rightarrow> point \<Rightarrow> real" where
  "movement cur prev =
     sqrt ((pt_x cur - pt_x prev)\<^sup>2 + (pt_y cur - pt_y prev)\<^sup>2)"

text \<open>\<open>faceSize / videoArea\<close>, each of the three operations rounded to binary64.\<close>

definition faceRatio :: "box \<Rightarrow> video \<Rightarrow> jsnum" where
  "faceRatio b v =
     js_divide (binary64 (box_width b * box_height b))
               (binary64 (real (videoWidth v) * real (videoHeight v)))"

definition detectSpoofing ::
  "detection option \<Rightarrow> video option \<Rightarrow> module_state \<Rightarrow> spoof_verdict \<times> module_state" where
  "detectSpoofing detection video s =
     (case (detection, video) of
        (Some d, Some v) \<Rightarrow>
          (let b = det_box d;
               sizeCons = (js_gt (faceRatio b v) double_0_05 \<and> js_lt (faceRatio b v) double_0_4);
               cur = currentPosition b;
               posStab = (case lastFacePosition s of
                            None \<Rightarrow> 1
                          | Some prev \<Rightarrow>
                              if movement cur prev > 5 \<and> movement cur prev < 50
                              then 8 / 10 else 3 / 10);
               spoofScore = (if sizeCons then 2 / 10 else 6 / 10);
               finalScore = spoofScore * (1 - posStab * (3 / 10))
           in (\<lparr>isSpoofed = (finalScore > 5 / 10), confidence = finalScore,
                 details = Some \<lparr>sizeConsistency = sizeCons, positionStability = posStab\<rparr>\<rparr>,
               s\<lparr>lastFacePosition := Some cur\<rparr>))
      | _ \<Rightarrow> (\<lparr>isSpoofed = False, confidence = 0, details = None\<rparr>, s))"

section \<open>Blink detection\<close>

text \<open>
  \<open>calculateEAR\<close> reads the points 0 to 5 of an eye. Reading a coordinate of a point the
  array does not have throws a \<open>TypeError\<close>: the result \<open>None\<close>.
\<close>

definition calculateEAR :: "point list \<Rightarrow> jsnum option" where
  "calculateEAR eyePoints =
     (if length eyePoints < 6 then None
      else
        let vertical1 = sqrt ((pt_y (eyePoints ! 1) - pt_y (eyePoints ! 5))\<^sup>2
                              + (pt_x (eyePoints ! 1) - pt_x (eyePoints ! 5))\<^sup>2);
            vertical2 = sqrt ((pt_y (eyePoints ! 2) - pt_y (eyePoints ! 4))\<^sup>2
                              + (pt_x (eyePoints ! 2) - pt_x (eyePoints ! 4))\<^sup>2);
            horizontal = sqrt ((pt_x (eyePoints ! 0) - pt_x (eyePoints ! 3))\<^sup>2
                               + (pt_y (eyePoints ! 0) - pt_y (eyePoints ! 3))\<^sup>2)
        in Some (js_div (vertical1 + vertical2) (2 * horizontal)))"

definition BLINK_THRESHOLD :: real where
  "BLINK_THRESHOLD = 25 / 100"

text \<open>The \<open>catch\<close> branch returns false for whatever the \<open>try\<close> block threw.\<close>

definition detectBlink :: "landmarks option \<Rightarrow> bool" where
  "detectBlink lm =
     (case lm of
        None \<Rightarrow> False
      | Some l \<Rightarrow>
          (case calculateEAR (getLeftEye l) of
             None \<Rightarrow> False
           | Some leftEAR \<Rightarrow>
               (case calculateEAR (getRightEye l) of
                  None \<Rightarrow> False
                | Some rightEAR \<Rightarrow>
                    js_lt (js_half (js_add leftEAR rightEAR)) BLINK_THRESHOLD)))"

section \<open>The liveness session\<close>

text \<open>
  What one round of the loop meets. The awaited detector call settles in one of three
  ways: it rejects (\<open>Threw\<close>), it resolves to no detection (\<open>NoFace\<close>), or it resolves to
  a detection. Between the rounds, while the loop waits for the detector and for the next
  animation frame, \<open>stopLivenessDetection\<close> may have been called: \<open>stopRequested\<close>.
  A frame source gives the event of round \<open>n\<close>, where \<open>n\<close> is the value of \<open>frameCount\<close>
  after its increment: rounds are numbered from 1. The detector is assumed to settle in
  every round, and no other call into the module (a spoof score, a second session) is made
  while the session runs.
\<close>

datatype detector_result = Threw | NoFace | Face detection

record frame_event =
  outcome :: detector_result
  stopRequested :: bool

definition maxFrames :: nat where
  "maxFrames = 300"

definition requiredBlinks :: nat where
  "requiredBlinks = 2"

definition stopLivenessDetection :: "module_state \<Rightarrow> module_state" where
  "stopLivenessDetection s = s\<lparr>blinkDetectionActive := False\<rparr>"

text \<open>The blink part of the \<open>try\<close> block, for a detection; \<open>onProgress\<close> tells whether the
  caller gave a callback (one that returns normally).\<close>

definition countBlink :: "detection \<Rightarrow> bool \<Rightarrow> nat \<Rightarrow> module_state \<Rightarrow> module_state" where
  "countBlink d onProgress frameCount s =
     (if detectBlink (det_landmarks d) \<and> frameCount mod 5 = 0
      then (let s1 = s\<lparr>blinkCount := blinkCount s + 1\<rparr>
            in if onProgress
               then s1\<lparr>progressReports := progressReports s1 @ [(blinkCount s1, requiredBlinks)]\<rparr>
               else s1)
      else s)"

text \<open>The head movement part of the \<open>try\<close> block.\<close>

definition trackHead :: "detection \<Rightarrow> module_state \<Rightarrow> module_state" where
  "trackHead d s =
     (let cur = currentPosition (det_box d);
          s1 = (case lastFacePosition s of
                  None \<Rightarrow> s
                | Some prev \<Rightarrow>
                    if movement cur prev > 10 then s\<lparr>headMovementDetected := True\<rparr> else s)
      in s1\<lparr>lastFacePosition := Some cur\<rparr>)"

text \<open>The \<open>try\<close> block of one round, \<open>frameCount\<close> already incremented.\<close>

definition processFrame :: "detector_result \<Rightarrow> bool \<Rightarrow> nat \<Rightarrow> module_state \<Rightarrow> module_state" where
  "processFrame r onProgress frameCount s =
     (case r of
        Threw \<Rightarrow> s
      | NoFace \<Rightarrow> s
      | Face d \<Rightarrow> trackHead d (countBlink d onProgress frameCount s))"

text \<open>One round that passed the guard: the frame is processed, then a stop request that
  arrived meanwhile takes effect.\<close>

definition liveRound :: "frame_event \<Rightarrow> bool \<Rightarrow> nat \<Rightarrow> module_state \<Rightarrow> module_state" where
  "liveRound ev onProgress frameCount s =
     (let s1 = processFrame (outcome ev) onProgress frameCount s
      in if stopRequested ev then stopLivenessDetection s1 else s1)"

definition resolve :: "module_state \<Rightarrow> liveness_verdict" where
  "resolve s =
     \<lparr>success = (blinkCount s \<ge> requiredBlinks \<and> headMovementDetected s),
      blinks = blinkCount s,
      headMovement = headMovementDetected s\<rparr>"

function detectLiveness ::
  "(nat \<Rightarrow> frame_event) \<Rightarrow> bool \<Rightarrow> nat \<Rightarrow> module_state \<Rightarrow> liveness_verdict \<times> module_state" where
  "detectLiveness src onProgress frameCount s =
     (if \<not> blinkDetectionActive s \<or> frameCount \<ge> maxFrames
      then (resolve (s\<lparr>blinkDetectionActive := False\<rparr>), s\<lparr>blinkDetectionActive := False\<rparr>)
      else detectLiveness src onProgress (frameCount + 1)
             (liveRound (src (frameCount + 1)) onProgress (frameCount + 1) s))"
  by pat_completeness auto
termination
  by (relation "measure (\<lambda>(src, onProgress, frameCount, s). maxFrames - frameCount)") auto

definition verifyLiveness ::
  "(nat \<Rightarrow> frame_event) \<Rightarrow> bool \<Rightarrow> module_state \<Rightarrow> liveness_verdict \<times> module_state" where
  "verifyLiveness src onProgress s =
     detectLiveness src onProgress 0
       (s\<lparr>blinkCount := 0, headMovementDetected := False, blinkDetectionActive := True\<rparr>)"

section \<open>The session as a sequence of states\<close>

text \<open>
  One call of the closure \<open>detectLiveness\<close>, by its effect on the module's variables: it
  resolves (and the loop ends), or it runs one round.
\<close>

definition closureCall ::
  "(nat \<Rightarrow> frame_event) \<Rightarrow> bool \<Rightarrow> nat \<Rightarrow> module_state \<Rightarrow> module_state" where
  "closureCall src onProgress frameCount s =
     (if \<not> blinkDetectionActive s \<or> frameCount \<ge> maxFrames
      then s\<lparr>blinkDetectionActive := False\<rparr>
      else liveRound (src (frameCount + 1)) onProgress (frameCount + 1) s)"

text \<open>
  The module's variables after \<open>k\<close> calls of the closure in the session that
  \<open>verifyLiveness src onProgress s\<close> starts; once the session has resolved, the state stays.
  While the session runs, \<open>sessionState src onProgress s k\<close> is the state after frame \<open>k\<close>.
  Lemma \<open>verifyLiveness_sessionState\<close> below ties it to \<open>verifyLiveness\<close>.
\<close>

primrec sessionState ::
  "(nat \<Rightarrow> frame_event) \<Rightarrow> bool \<Rightarrow> module_state \<Rightarrow> nat \<Rightarrow> module_state" where
  "sessionState src onProgress s 0 =
     s\<lparr>blinkCount := 0, headMovementDetected := False, blinkDetectionActive := True\<rparr>"
| "sessionState src onProgress s (Suc k) =
     closureCall src onProgress k (sessionState src onProgress s k)"

text \<open>The raw blink predicate of a frame: a detection whose landmarks \<open>detectBlink\<close> accepts.\<close>

definition rawBlink :: "detector_result \<Rightarrow> bool" where
  "rawBlink r = (case r of Face d \<Rightarrow> detectBlink (det_landmarks d) | _ \<Rightarrow> False)"

text \<open>The frames after frame \<open>n\<close>, up to frame \<open>n + k\<close>, on which the debounce lets a blink count.\<close>

definition debounced :: "(nat \<Rightarrow> frame_event) \<Rightarrow> nat \<Rightarrow> nat \<Rightarrow> nat set" where
  "debounced src n k = {f. n < f \<and> f \<le> n + k \<and> rawBlink (outcome (src f)) \<and> f mod 5 = 0}"

section \<open>The recognise button\<close>

text \<open>
  The click handler of the recognise button in \<open>app.js\<close>, an async function without any
  \<open>try\<close>. What it does is a sequence of effects (alerts shown, rows sent to the attendance
  table, lines written to the console) and an ending: the handler runs to its end, or one
  of the calls it awaits throws and its promise is rejected with nothing to handle it.
  Three calls can throw: the face detector, the matcher of the face library, and the insert
  into the attendance table. \<open>FaceMatcher\<close> belongs to the face library and is a parameter:
  it takes the labeled descriptors, the distance threshold and the query.
\<close>

type_synonym descriptor = "real list"

record labeledFaceDescriptors =
  ld_label :: string
  ld_descriptors :: "descriptor list"

record faceMatch =
  label :: string
  distance :: real

text \<open>How a call that is awaited, or that may throw, comes back.\<close>

datatype 'a settled = Rejects | Resolves 'a

text \<open>What the insert into the attendance table answers: a rejected promise, an answer that
  carries an error, or an answer without error.\<close>

datatype insert_answer = InsertRejected | InsertError | InsertOk

datatype effect =
    Alert string
  | InsertAttendance string
  | ConsoleError string
  | ConsoleLog string

datatype ending = Completed | Unhandled

text \<open>\<open>hasVideo\<close>: the page has the video element; \<open>detections\<close>: how the detector call for
  the current frame comes back, a detection given by its descriptor.\<close>

definition detectFace ::
  "bool \<Rightarrow> descriptor option settled \<Rightarrow> descriptor option settled \<times> effect list" where
  "detectFace hasVideo detections =
     (if \<not> hasVideo then (Resolves None, [])
      else case detections of
             Rejects \<Rightarrow> (Rejects, [])
           | Resolves (Some faceDescriptor) \<Rightarrow> (Resolves (Some faceDescriptor), [])
           | Resolves None \<Rightarrow> (Resolves None, [Alert ''No face detected. Please try again.'']))"

definition markAttendance :: "string \<Rightarrow> insert_answer \<Rightarrow> unit settled \<times> effect list" where
  "markAttendance name answer =
     (case answer of
        InsertRejected \<Rightarrow> (Rejects, [InsertAttendance name])
      | InsertError \<Rightarrow>
          (Resolves (), [InsertAttendance name, ConsoleError ''Error marking attendance:''])
      | InsertOk \<Rightarrow>
          (Resolves (), [InsertAttendance name, ConsoleLog (''Attendance marked for '' @ name)]))"

definition recognizeClick ::
  "(labeledFaceDescriptors list \<Rightarrow> real \<Rightarrow> descriptor \<Rightarrow> faceMatch settled) \<Rightarrow>
   bool \<Rightarrow> descriptor option settled \<Rightarrow> insert_answer \<Rightarrow> labeledFaceDescriptors list \<Rightarrow>
   effect list \<times> ending" where
  "recognizeClick findBestMatch hasVideo detections answer labeled =
     (case detectFace hasVideo detections of
        (Rejects, fx) \<Rightarrow> (fx, Unhandled)
      | (Resolves None, fx) \<Rightarrow> (fx, Completed)
      | (Resolves (Some faceDescriptor), fx) \<Rightarrow>
          if length labeled = 0
          then (fx @ [Alert ''No registered faces found in the system.''], Completed)
          else
            (case findBestMatch labeled (6 / 10) faceDescriptor of
               Rejects \<Rightarrow> (fx, Unhandled)
             | Resolves bestMatch \<Rightarrow>
                 if label bestMatch \<noteq> ''unknown''
                 then (case markAttendance (label bestMatch) answer of
                         (Rejects, mx) \<Rightarrow> (fx @ mx, Unhandled)
                       | (Resolves _, mx) \<Rightarrow>
                           (fx @ mx @ [Alert (''Face recognized! Attendance marked for ''
                                              @ label bestMatch @ ''.'')],
                            Completed))
                 else (fx @ [Alert ''Face not recognized. Please register first.''],
                       Completed)))"

section \<open>Concrete inputs\<close>

text \<open>The module's variables as the module initialises them when it is loaded.\<close>

definition initialModule :: module_state where
  "initialModule =
     \<lparr>blinkCount = 0, headMovementDetected = False, lastFacePosition = None,
      blinkDetectionActive = False, progressReports = []\<rparr>"

text \<open>An eye with the lids together, and an open eye twice as wide as high.\<close>

definition closedEye :: "point list" where
  "closedEye =
     [\<lparr>pt_x = 0, pt_y = 0\<rparr>, \<lparr>pt_x = 1, pt_y = 0\<rparr>, \<lparr>pt_x = 3, pt_y = 0\<rparr>,
      \<lparr>pt_x = 4, pt_y = 0\<rparr>, \<lparr>pt_x = 3, pt_y = 0\<rparr>, \<lparr>pt_x = 1, pt_y = 0\<rparr>]"

definition openEye :: "point list" where
  "openEye =
     [\<lparr>pt_x = 0, pt_y = 0\<rparr>, \<lparr>pt_x = 1, pt_y = 1\<rparr>, \<lparr>pt_x = 3, pt_y = 1\<rparr>,
      \<lparr>pt_x = 4, pt_y = 0\<rparr>, \<lparr>pt_x = 3, pt_y = - 1\<rparr>, \<lparr>pt_x = 1, pt_y = - 1\<rparr>]"

definition closedEyes :: landmarks where
  "closedEyes = \<lparr>getLeftEye = closedEye, getRightEye = closedEye\<rparr>"

definition openEyes :: landmarks where
  "openEyes = \<lparr>getLeftEye = openEye, getRightEye = openEye\<rparr>"

text \<open>A face of 200 by 200 pixels whose left edge is at \<open>left\<close>.\<close>

definition faceAt :: "real \<Rightarrow> landmarks option \<Rightarrow> detection" where
  "faceAt left lm =
     \<lparr>det_box = \<lparr>box_x = left, box_y = 100, box_width = 200, box_height = 200\<rparr>,
      det_landmarks = lm\<rparr>"

text \<open>The frames on which scenario A has the blink predicate true.\<close>

definition blinkFrames :: "nat set" where
  "blinkFrames = {5, 10, 15, 20, 25, 30, 35, 40, 45, 50}"

text \<open>
  Scenario A: closed eyes on the frames 5, 10, ..., 50 and open eyes on every other frame;
  the face stands still but for a step of 20 pixels between frame 100 and frame 101; nobody
  stops the session.
\<close>

definition scenarioA :: "nat \<Rightarrow> frame_event" where
  "scenarioA f =
     \<lparr>outcome = Face (faceAt (if f \<le> 100 then 100 else 120)
                          (Some (if f \<in> blinkFrames then closedEyes else openEyes))),
      stopRequested = False\<rparr>"

text \<open>A printed photo held still in front of the camera: the same face, eyes open, on every frame.\<close>

definition stillPhoto :: "nat \<Rightarrow> frame_event" where
  "stillPhoto f = \<lparr>outcome = Face (faceAt 100 (Some openEyes)), stopRequested = False\<rparr>"

text \<open>Eyes kept shut through the whole session.\<close>

definition eyesShut :: "nat \<Rightarrow> frame_event" where
  "eyesShut f = \<lparr>outcome = Face (faceAt 100 (Some closedEyes)), stopRequested = False\<rparr>"



definition sevenPointEyes :: landmarks where
  "sevenPointEyes = \<lparr>getLeftEye = closedEye @ [\<lparr>pt_x = 2, pt_y = 0\<rparr>],
                     getRightEye = closedEye @ [\<lparr>pt_x = 2, pt_y = 0\<rparr>]\<rparr>"


text \<open>
  A camera of 720 by 910 pixels and a box whose area is a little more than a twentieth of
  the frame's: by \<open>1 / 2 ^ 38\<close> of a pixel, which is less than the rounding of the quotient
  can tell from a twentieth. Both sides of the box are binary64 numbers.
\<close>

definition tallCamera :: video where
  "tallCamera = \<lparr>videoWidth = 720, videoHeight = 910\<rparr>"

definition roundingFace :: detection where
  "roundingFace =
     \<lparr>det_box = \<lparr>box_x = 0, box_y = 0, box_width = 32760 + 1 / 2 ^ 38, box_height = 1\<rparr>,
      det_landmarks = None\<rparr>"

text \<open>Faces whose area is a twentieth, and two fifths, of the frame of the camera below.\<close>

definition lowerBoundFace :: detection where
  "lowerBoundFace =
     \<lparr>det_box = \<lparr>box_x = 0, box_y = 0, box_width = 144, box_height = 140\<rparr>,
      det_landmarks = None\<rparr>"

definition upperBoundFace :: detection where
  "upperBoundFace =
     \<lparr>det_box = \<lparr>box_x = 0, box_y = 0, box_width = 360, box_height = 448\<rparr>,
      det_landmarks = None\<rparr>"

text \<open>The camera of \<open>app.js\<close>, and a face far from it.\<close>

definition camera :: video where
  "camera = \<lparr>videoWidth = 720, videoHeight = 560\<rparr>"

definition farFace :: detection where
  "farFace =
     \<lparr>det_box = \<lparr>box_x = 300, box_y = 200, box_width = 50, box_height = 50\<rparr>,
      det_landmarks = Some openEyes\<rparr>"

text \<open>A matcher that finds the query at distance 0.3 from the first labeled descriptor.\<close>

definition firstMatch ::
  "labeledFaceDescriptors list \<Rightarrow> real \<Rightarrow> descriptor \<Rightarrow> faceMatch settled" where
  "firstMatch labeled threshold query =
     (case labeled of
        [] \<Rightarrow> Resolves \<lparr>label = ''unknown'', distance = 1\<rparr>
      | e # _ \<Rightarrow> Resolves \<lparr>label = ld_label e, distance = 3 / 10\<rparr>)"

text \<open>A matcher that finds nobody near the query, and one that throws.\<close>

definition noMatch ::
  "labeledFaceDescriptors list \<Rightarrow> real \<Rightarrow> descriptor \<Rightarrow> faceMatch settled" where
  "noMatch labeled threshold query = Resolves \<lparr>label = ''unknown'', distance = 7 / 10\<rparr>"

definition brokenMatch ::
  "labeledFaceDescriptors list \<Rightarrow> real \<Rightarrow> descriptor \<Rightarrow> faceMatch settled" where
  "brokenMatch labeled threshold query = Rejects"

definition gallery :: "labeledFaceDescriptors list" where
  "gallery = [\<lparr>ld_label = ''alice'', ld_descriptors = [[0, 0]]\<rparr>]"

section \<open>Auxiliary facts\<close>

subsection \<open>The spoof scorer\<close>

lemma detectSpoofing_None:
  "detection = None \<or> video = None \<Longrightarrow>
   detectSpoofing detection video s = (\<lparr>isSpoofed = False, confidence = 0, details = None\<rparr>, s)"
  by (auto simp: detectSpoofing_def split: option.splits)

lemma faceRatio_ordinary:
  assumes "binary64 (box_width b * box_height b) = Finite a"
    and "binary64 (real (videoWidth v) * real (videoHeight v)) = Finite c" and "c \<noteq> 0"
  shows "faceRatio b v = binary64 (a / c)"
  using assms by (simp add: faceRatio_def)

lemma detectSpoofing_sizeConsistency:
  "map_option sizeConsistency (details (fst (detectSpoofing (Some d) (Some v) s))) =
     Some (js_gt (faceRatio (det_box d) v) double_0_05 \<and> js_lt (faceRatio (det_box d) v) double_0_4)"
  by (simp add: detectSpoofing_def Let_def)

lemma between_bounds:
  "(js_gt r double_0_05 \<and> js_lt r double_0_4) = (\<exists>q. r = Finite q \<and> double_0_05 < q \<and> q < double_0_4)"
  by (cases r) (simp_all add: double_0_05_def double_0_4_def)

lemma sizeConsistency_at:
  assumes "faceRatio (det_box d) v = Finite q"
  shows "map_option sizeConsistency (details (fst (detectSpoofing (Some d) (Some v) s))) =
           Some (double_0_05 < q \<and> q < double_0_4)"
  by (simp add: detectSpoofing_sizeConsistency assms)

subsection \<open>Rounding to binary64 at given numbers\<close>

lemma pow2_powr: "pow2 k = 2 powr (of_int k)"
  by (simp add: pow2_def powr_real_of_int field_simps)

lemma floor_log2_eq:
  assumes "pow2 e \<le> \<bar>x\<bar>" "\<bar>x\<bar> < pow2 (e + 1)"
  shows "\<lfloor>log 2 \<bar>x\<bar>\<rfloor> = e"
proof -
  have "0 < pow2 e" by (simp add: pow2_def)
  then have pos: "0 < \<bar>x\<bar>" using assms(1) by linarith
  show ?thesis
    using assms pos by (simp add: floor_log_eq_powr_iff pow2_powr)
qed

lemma binary64_at:
  assumes "pow2 e \<le> \<bar>x\<bar>" "\<bar>x\<bar> < pow2 (e + 1)" "- 1022 \<le> e"
    and "\<bar>of_int (roundHalfEven (x / pow2 (e - 52))) * pow2 (e - 52)\<bar> < (2::real) ^ 1024"
  shows "binary64 x = Finite (of_int (roundHalfEven (x / pow2 (e - 52))) * pow2 (e - 52))"
proof -
  have "0 < pow2 e" by (simp add: pow2_def)
  then have "x \<noteq> 0" using assms(1) by auto
  moreover have "max \<lfloor>log 2 \<bar>x\<bar>\<rfloor> (- 1022) = e"
    using floor_log2_eq[OF assms(1,2)] assms(3) by simp
  ultimately show ?thesis
    using assms(4) by (simp add: binary64_def Let_def)
qed

lemma binary64_literals:
  "binary64 (5 / 100) = Finite double_0_05" "binary64 (4 / 10) = Finite double_0_4"
proof -
  show "binary64 (5 / 100) = Finite double_0_05"
    by (subst binary64_at[where e = "- 5"])
       (simp_all add: pow2_def roundHalfEven_def Let_def double_0_05_def)
  show "binary64 (4 / 10) = Finite double_0_4"
    by (subst binary64_at[where e = "- 2"])
       (simp_all add: pow2_def roundHalfEven_def Let_def double_0_4_def)
qed

lemma binary64_areas:
  "binary64 2500 = Finite 2500" "binary64 20160 = Finite 20160" "binary64 40000 = Finite 40000"
  "binary64 161280 = Finite 161280" "binary64 403200 = Finite 403200"
  "binary64 655200 = Finite 655200"
  "binary64 (32760 + 1 / 2 ^ 38) = Finite (32760 + 1 / 2 ^ 38)"
proof -
  show "binary64 2500 = Finite 2500"
    by (subst binary64_at[where e = 11]) (simp_all add: pow2_def roundHalfEven_def Let_def)
  show "binary64 20160 = Finite 20160"
    by (subst binary64_at[where e = 14]) (simp_all add: pow2_def roundHalfEven_def Let_def)
  show "binary64 40000 = Finite 40000"
    by (subst binary64_at[where e = 15]) (simp_all add: pow2_def roundHalfEven_def Let_def)
  show "binary64 161280 = Finite 161280"
    by (subst binary64_at[where e = 17]) (simp_all add: pow2_def roundHalfEven_def Let_def)
  show "binary64 403200 = Finite 403200"
    by (subst binary64_at[where e = 18]) (simp_all add: pow2_def roundHalfEven_def Let_def)
  show "binary64 655200 = Finite 655200"
    by (subst binary64_at[where e = 19]) (simp_all add: pow2_def roundHalfEven_def Let_def)
  show "binary64 (32760 + 1 / 2 ^ 38) = Finite (32760 + 1 / 2 ^ 38)"
    by (subst binary64_at[where e = 14]) (simp_all add: pow2_def roundHalfEven_def Let_def)
qed

lemma binary64_ratios:
  "binary64 (20160 / 403200) = Finite double_0_05"
  "binary64 (161280 / 403200) = Finite double_0_4"
  "binary64 ((32760 + 1 / 2 ^ 38) / 655200) = Finite double_0_05"
  "binary64 (40000 / 403200) = Finite (7148570837096025 / 2 ^ 56)"
  "binary64 (2500 / 403200) = Finite (7148570837096025 / 2 ^ 60)"
proof -
  show "binary64 (20160 / 403200) = Finite double_0_05"
    using binary64_literals(1) by simp
  show "binary64 (161280 / 403200) = Finite double_0_4"
    using binary64_literals(2) by simp
  show "binary64 ((32760 + 1 / 2 ^ 38) / 655200) = Finite double_0_05"
    by (subst binary64_at[where e = "- 5"])
       (simp_all add: pow2_def roundHalfEven_def Let_def double_0_05_def)
  show "binary64 (40000 / 403200) = Finite (7148570837096025 / 2 ^ 56)"
    by (subst binary64_at[where e = "- 4"]) (simp_all add: pow2_def roundHalfEven_def Let_def)
  show "binary64 (2500 / 403200) = Finite (7148570837096025 / 2 ^ 60)"
    by (subst binary64_at[where e = "- 8"]) (simp_all add: pow2_def roundHalfEven_def Let_def)
qed

lemma faceRatio_at:
  assumes "box_width b * box_height b = a" and "binary64 a = Finite a'"
    and "real (videoWidth v) * real (videoHeight v) = c" and "binary64 c = Finite c'"
    and "c' \<noteq> 0" and "binary64 (a' / c') = r"
  shows "faceRatio b v = r"
  using assms by (simp add: faceRatio_def)

lemma faceRatio_lowerBoundFace: "faceRatio (det_box lowerBoundFace) camera = Finite double_0_05"
proof (rule faceRatio_at)
  show "box_width (det_box lowerBoundFace) * box_height (det_box lowerBoundFace) = 20160"
    by (simp add: lowerBoundFace_def)
  show "binary64 20160 = Finite 20160" by (rule binary64_areas)
  show "real (videoWidth camera) * real (videoHeight camera) = 403200"
    by (simp add: camera_def)
  show "binary64 403200 = Finite 403200" by (rule binary64_areas)
  show "(403200::real) \<noteq> 0" by simp
  show "binary64 (20160 / 403200) = Finite double_0_05" by (rule binary64_ratios)
qed

lemma faceRatio_upperBoundFace: "faceRatio (det_box upperBoundFace) camera = Finite double_0_4"
proof (rule faceRatio_at)
  show "box_width (det_box upperBoundFace) * box_height (det_box upperBoundFace) = 161280"
    by (simp add: upperBoundFace_def)
  show "binary64 161280 = Finite 161280" by (rule binary64_areas)
  show "real (videoWidth camera) * real (videoHeight camera) = 403200"
    by (simp add: camera_def)
  show "binary64 403200 = Finite 403200" by (rule binary64_areas)
  show "(403200::real) \<noteq> 0" by simp
  show "binary64 (161280 / 403200) = Finite double_0_4" by (rule binary64_ratios)
qed

lemma faceRatio_roundingFace: "faceRatio (det_box roundingFace) tallCamera = Finite double_0_05"
proof (rule faceRatio_at)
  show "box_width (det_box roundingFace) * box_height (det_box roundingFace) = 32760 + 1 / 2 ^ 38"
    by (simp add: roundingFace_def)
  show "binary64 (32760 + 1 / 2 ^ 38) = Finite (32760 + 1 / 2 ^ 38)" by (rule binary64_areas)
  show "real (videoWidth tallCamera) * real (videoHeight tallCamera) = 655200"
    by (simp add: tallCamera_def)
  show "binary64 655200 = Finite 655200" by (rule binary64_areas)
  show "(655200::real) \<noteq> 0" by simp
  show "binary64 ((32760 + 1 / 2 ^ 38) / 655200) = Finite double_0_05" by (rule binary64_ratios)
qed

lemma faceRatio_faceAt:
  "faceRatio (det_box (faceAt left lm)) camera = Finite (7148570837096025 / 2 ^ 56)"
proof (rule faceRatio_at)
  show "box_width (det_box (faceAt left lm)) * box_height (det_box (faceAt left lm)) = 40000"
    by (simp add: faceAt_def)
  show "binary64 40000 = Finite 40000" by (rule binary64_areas)
  show "real (videoWidth camera) * real (videoHeight camera) = 403200"
    by (simp add: camera_def)
  show "binary64 403200 = Finite 403200" by (rule binary64_areas)
  show "(403200::real) \<noteq> 0" by simp
  show "binary64 (40000 / 403200) = Finite (7148570837096025 / 2 ^ 56)" by (rule binary64_ratios)
qed

lemma faceRatio_farFace:
  "faceRatio (det_box farFace) camera = Finite (7148570837096025 / 2 ^ 60)"
proof (rule faceRatio_at)
  show "box_width (det_box farFace) * box_height (det_box farFace) = 2500"
    by (simp add: farFace_def)
  show "binary64 2500 = Finite 2500" by (rule binary64_areas)
  show "real (videoWidth camera) * real (videoHeight camera) = 403200"
    by (simp add: camera_def)
  show "binary64 403200 = Finite 403200" by (rule binary64_areas)
  show "(403200::real) \<noteq> 0" by simp
  show "binary64 (2500 / 403200) = Finite (7148570837096025 / 2 ^ 60)" by (rule binary64_ratios)
qed

subsection \<open>The blink predicate\<close>




subsection \<open>One round of the loop\<close>

declare detectLiveness.simps [simp del]

lemma countBlink_fields [simp]:
  "blinkCount (countBlink d op f s) = blinkCount s + (if detectBlink (det_landmarks d) \<and> f mod 5 = 0 then 1 else 0)"
  "headMovementDetected (countBlink d op f s) = headMovementDetected s"
  "lastFacePosition (countBlink d op f s) = lastFacePosition s"
  "blinkDetectionActive (countBlink d op f s) = blinkDetectionActive s"
  by (simp_all add: countBlink_def Let_def)

lemma trackHead_fields [simp]:
  "blinkCount (trackHead d s) = blinkCount s"
  "lastFacePosition (trackHead d s) = Some (currentPosition (det_box d))"
  "blinkDetectionActive (trackHead d s) = blinkDetectionActive s"
  "progressReports (trackHead d s) = progressReports s"
  "headMovementDetected (trackHead d s) =
     (headMovementDetected s \<or>
      (case lastFacePosition s of None \<Rightarrow> False
       | Some prev \<Rightarrow> movement (currentPosition (det_box d)) prev > 10))"
  by (simp_all add: trackHead_def Let_def split: option.splits)

lemma processFrame_blinkCount:
  "blinkCount (processFrame r op f s) = blinkCount s + (if rawBlink r \<and> f mod 5 = 0 then 1 else 0)"
  by (cases r) (simp_all add: processFrame_def rawBlink_def)

lemma processFrame_active [simp]:
  "blinkDetectionActive (processFrame r op f s) = blinkDetectionActive s"
  by (cases r) (simp_all add: processFrame_def)

lemma processFrame_head_mono:
  "headMovementDetected s \<Longrightarrow> headMovementDetected (processFrame r op f s)"
  by (cases r) (simp_all add: processFrame_def)

lemma liveRound_blinkCount:
  "blinkCount (liveRound ev op f s) = blinkCount s + (if rawBlink (outcome ev) \<and> f mod 5 = 0 then 1 else 0)"
  by (simp add: liveRound_def Let_def stopLivenessDetection_def processFrame_blinkCount)

lemma liveRound_head_mono:
  "headMovementDetected s \<Longrightarrow> headMovementDetected (liveRound ev op f s)"
  by (simp add: liveRound_def Let_def stopLivenessDetection_def processFrame_head_mono)

lemma liveRound_active:
  "blinkDetectionActive (liveRound ev op f s) = (blinkDetectionActive s \<and> \<not> stopRequested ev)"
  by (simp add: liveRound_def Let_def stopLivenessDetection_def)

lemma closureCall_live:
  "blinkDetectionActive s \<Longrightarrow> k < maxFrames \<Longrightarrow>
   closureCall src op k s = liveRound (src (Suc k)) op (Suc k) s"
  by (simp add: closureCall_def)

lemma closureCall_resolved:
  "\<not> blinkDetectionActive s \<Longrightarrow> closureCall src op k s = s"
  by (simp add: closureCall_def)

lemma closureCall_mono:
  "blinkCount s \<le> blinkCount (closureCall src op k s)"
  "headMovementDetected s \<Longrightarrow> headMovementDetected (closureCall src op k s)"
  by (simp_all add: closureCall_def liveRound_blinkCount liveRound_head_mono)

subsection \<open>The states of a session\<close>

lemma sessionState_resolved:
  "\<not> blinkDetectionActive (sessionState src op s n) \<Longrightarrow>
   sessionState src op s (n + k) = sessionState src op s n"
  by (induction k) (simp_all add: closureCall_resolved)

lemma sessionState_active_earlier:
  "blinkDetectionActive (sessionState src op s j) \<Longrightarrow> i \<le> j \<Longrightarrow>
   blinkDetectionActive (sessionState src op s i)"
proof (rule ccontr)
  assume j: "blinkDetectionActive (sessionState src op s j)" and le: "i \<le> j"
    and i: "\<not> blinkDetectionActive (sessionState src op s i)"
  have "sessionState src op s (i + (j - i)) = sessionState src op s i"
    by (rule sessionState_resolved[OF i])
  then have "sessionState src op s j = sessionState src op s i"
    using le by simp
  then show False using i j by simp
qed

lemma sessionState_mono_blinks:
  "i \<le> j \<Longrightarrow> blinkCount (sessionState src op s i) \<le> blinkCount (sessionState src op s j)"
  by (rule lift_Suc_mono_le[of "\<lambda>k. blinkCount (sessionState src op s k)"])
     (simp_all add: closureCall_mono)

lemma sessionState_mono_head:
  "i \<le> j \<Longrightarrow> headMovementDetected (sessionState src op s i) \<Longrightarrow>
   headMovementDetected (sessionState src op s j)"
  by (induction j) (auto simp: le_Suc_eq closureCall_mono)

subsection \<open>The loop ends in the last state of the session\<close>

lemma detectLiveness_resolve:
  "\<not> blinkDetectionActive s \<or> maxFrames \<le> n \<Longrightarrow>
   detectLiveness src op n s =
     (resolve (s\<lparr>blinkDetectionActive := False\<rparr>), s\<lparr>blinkDetectionActive := False\<rparr>)"
  by (subst detectLiveness.simps) auto

lemma detectLiveness_round:
  "blinkDetectionActive s \<Longrightarrow> n < maxFrames \<Longrightarrow>
   detectLiveness src op n s =
     detectLiveness src op (Suc n) (liveRound (src (Suc n)) op (Suc n) s)"
  by (subst detectLiveness.simps) simp

lemma detectLiveness_sessionState:
  "n \<le> maxFrames \<Longrightarrow>
   detectLiveness src op n (sessionState src op s n) =
     (resolve (sessionState src op s (Suc maxFrames)), sessionState src op s (Suc maxFrames))"
proof (induction "maxFrames - n" arbitrary: n)
  case 0
  then have n: "n = maxFrames" by simp
  show ?case
    by (simp add: n detectLiveness_resolve closureCall_def)
next
  case (Suc m)
  then have lt: "n < maxFrames" by simp
  show ?case
  proof (cases "blinkDetectionActive (sessionState src op s n)")
    case False
    have "sessionState src op s (n + (Suc maxFrames - n)) = sessionState src op s n"
      by (rule sessionState_resolved[OF False])
    moreover have "n + (Suc maxFrames - n) = Suc maxFrames" using lt by simp
    ultimately have fin: "sessionState src op s (Suc maxFrames) = sessionState src op s n"
      by simp
    have same: "(sessionState src op s n)\<lparr>blinkDetectionActive := False\<rparr> = sessionState src op s n"
      using False by simp
    have "detectLiveness src op n (sessionState src op s n) =
          (resolve ((sessionState src op s n)\<lparr>blinkDetectionActive := False\<rparr>),
           (sessionState src op s n)\<lparr>blinkDetectionActive := False\<rparr>)"
      using False by (intro detectLiveness_resolve) simp
    then show ?thesis
      unfolding same fin .
  next
    case True
    have "detectLiveness src op n (sessionState src op s n) =
          detectLiveness src op (Suc n) (sessionState src op s (Suc n))"
      using True lt by (simp add: detectLiveness_round closureCall_live)
    also have "\<dots> = (resolve (sessionState src op s (Suc maxFrames)), sessionState src op s (Suc maxFrames))"
      using Suc.hyps(1)[of "Suc n"] Suc.hyps(2) lt by simp
    finally show ?thesis .
  qed
qed

lemma verifyLiveness_sessionState:
  "verifyLiveness src op s =
     (resolve (sessionState src op s (Suc maxFrames)), sessionState src op s (Suc maxFrames))"
  using detectLiveness_sessionState[of 0 src op s] by (simp add: verifyLiveness_def)

subsection \<open>Counting blinks while the session runs\<close>

lemma sessionState_live_step:
  "blinkDetectionActive (sessionState src op s k) \<Longrightarrow> k < maxFrames \<Longrightarrow>
   sessionState src op s (Suc k) = liveRound (src (Suc k)) op (Suc k) (sessionState src op s k)"
  by (simp add: closureCall_live)

lemma sessionState_unstopped:
  "k \<le> maxFrames \<Longrightarrow> (\<forall>f. 1 \<le> f \<and> f \<le> k \<longrightarrow> \<not> stopRequested (src f)) \<Longrightarrow>
   blinkDetectionActive (sessionState src op s k)"
proof (induction k)
  case 0
  show ?case by simp
next
  case (Suc k)
  have act: "blinkDetectionActive (sessionState src op s k)"
    using Suc by simp
  have "\<not> stopRequested (src (Suc k))" using Suc.prems by simp
  then show ?case
    using act Suc.prems(1) by (simp add: closureCall_live liveRound_active)
qed

lemma debounced_finite: "finite (debounced src n k)"
proof -
  have "debounced src n k \<subseteq> {..n + k}" by (auto simp: debounced_def)
  then show ?thesis by (rule finite_subset) simp
qed

lemma debounced_Suc:
  "debounced src n (Suc k) =
     (if rawBlink (outcome (src (Suc (n + k)))) \<and> Suc (n + k) mod 5 = 0
      then insert (Suc (n + k)) (debounced src n k) else debounced src n k)"
  by (auto simp: debounced_def le_Suc_eq)

lemma debounced_card_Suc:
  "card (debounced src n (Suc k)) =
     card (debounced src n k) + (if rawBlink (outcome (src (Suc (n + k)))) \<and> Suc (n + k) mod 5 = 0 then 1 else 0)"
proof -
  have "Suc (n + k) \<notin> debounced src n k" by (simp add: debounced_def)
  then show ?thesis
    by (simp add: debounced_Suc debounced_finite)
qed

lemma sessionState_live_blinks:
  "n + k \<le> maxFrames \<Longrightarrow> (\<forall>i<k. blinkDetectionActive (sessionState src op s (n + i))) \<Longrightarrow>
   blinkCount (sessionState src op s (n + k)) =
     blinkCount (sessionState src op s n) + card (debounced src n k)"
proof (induction k)
  case 0
  show ?case by (simp add: debounced_def)
next
  case (Suc k)
  have act: "blinkDetectionActive (sessionState src op s (n + k))"
    using Suc.prems(2) by simp
  have lt: "n + k < maxFrames" using Suc.prems(1) by simp
  have step: "sessionState src op s (Suc (n + k)) =
      liveRound (src (Suc (n + k))) op (Suc (n + k)) (sessionState src op s (n + k))"
    by (rule sessionState_live_step[OF act lt])
  have ih: "blinkCount (sessionState src op s (n + k)) =
     blinkCount (sessionState src op s n) + card (debounced src n k)"
    using Suc by simp
  have "blinkCount (sessionState src op s (n + Suc k)) =
     blinkCount (sessionState src op s (n + k)) +
       (if rawBlink (outcome (src (Suc (n + k)))) \<and> Suc (n + k) mod 5 = 0 then 1 else 0)"
    using step by (simp add: liveRound_blinkCount del: sessionState.simps)
  then show ?case
    using ih by (simp add: debounced_card_Suc del: sessionState.simps)
qed

lemma window_below:
  fixes f n :: nat
  assumes "n < f" "f \<le> n + 10" "5 dvd f"
  shows "f = 5 * (n div 5) + 5 \<or> f = 5 * (n div 5) + 10"
proof -
  obtain m where f: "f = 5 * m" using assms(3) by (auto elim: dvdE)
  have n: "n = 5 * (n div 5) + n mod 5" by simp
  have r: "n mod 5 < 5" by simp
  have "m = n div 5 + 1 \<or> m = n div 5 + 2"
    using assms(1,2) n r unfolding f by linarith
  then show ?thesis unfolding f by auto
qed
lemma window_above:
  fixes n :: nat
  shows "n < 5 * (n div 5) + 5" "5 * (n div 5) + 10 \<le> n + 10" "5 * (n div 5) + 5 \<le> n + 10"
proof -
  have n: "n = 5 * (n div 5) + n mod 5" by simp
  have r: "n mod 5 < 5" by simp
  show "n < 5 * (n div 5) + 5" using n r by linarith
  show "5 * (n div 5) + 10 \<le> n + 10" using n by linarith
  show "5 * (n div 5) + 5 \<le> n + 10" using n by linarith
qed
lemma window_multiples:
  "{f::nat. n < f \<and> f \<le> n + 10 \<and> f mod 5 = 0} = {5 * (n div 5) + 5, 5 * (n div 5) + 10}"
  using window_below[of n] window_above[of n] by (auto simp: mod_eq_0_iff_dvd)
lemma window_card: "card {f::nat. n < f \<and> f \<le> n + 10 \<and> f mod 5 = 0} = 2"
  by (simp add: window_multiples)

lemma sustained_blink_window:
  assumes "n + 10 \<le> maxFrames"
    and "blinkDetectionActive (sessionState src op s (n + 9))"
    and "\<forall>f. n < f \<and> f \<le> n + 10 \<longrightarrow> rawBlink (outcome (src f))"
  shows "blinkCount (sessionState src op s (n + 10)) = blinkCount (sessionState src op s n) + 2"
proof -
  have act: "\<forall>i<10. blinkDetectionActive (sessionState src op s (n + i))"
    using sessionState_active_earlier[OF assms(2)] by simp
  have "debounced src n 10 = {f::nat. n < f \<and> f \<le> n + 10 \<and> f mod 5 = 0}"
    using assms(3) by (auto simp: debounced_def)
  then have "card (debounced src n 10) = 2" by (simp add: window_card)
  then show ?thesis
    using sessionState_live_blinks[OF assms(1) act] by simp
qed

subsection \<open>Scenario A\<close>

lemma blinkFrames_card: "card blinkFrames = 10"
  by (simp add: blinkFrames_def)

lemma scenario_debounced:
  assumes "\<forall>f. 1 \<le> f \<and> f \<le> 300 \<longrightarrow> (rawBlink (outcome (src f)) \<longleftrightarrow> f \<in> blinkFrames)"
  shows "debounced src 0 300 = blinkFrames"
proof
  show "debounced src 0 300 \<subseteq> blinkFrames"
    using assms by (auto simp: debounced_def)
  show "blinkFrames \<subseteq> debounced src 0 300"
  proof
    fix f assume f: "f \<in> blinkFrames"
    then have "1 \<le> f \<and> f \<le> 300 \<and> f mod 5 = 0"
      by (auto simp: blinkFrames_def)
    then show "f \<in> debounced src 0 300"
      using assms f by (simp add: debounced_def)
  qed
qed

lemma scenario_general:
  assumes blink: "\<forall>f. 1 \<le> f \<and> f \<le> 300 \<longrightarrow> (rawBlink (outcome (src f)) \<longleftrightarrow> f \<in> blinkFrames)"
    and nostop: "\<forall>f. 1 \<le> f \<and> f \<le> 300 \<longrightarrow> \<not> stopRequested (src f)"
    and f100: "outcome (src 100) = Face d1"
    and f101: "outcome (src 101) = Face d2"
    and moved: "movement (currentPosition (det_box d2)) (currentPosition (det_box d1)) = 20"
  shows "fst (verifyLiveness src op s) = \<lparr>success = True, blinks = 10, headMovement = True\<rparr>"
proof -
  let ?st = "sessionState src op s"
  have act: "blinkDetectionActive (?st k)" if "k \<le> 300" for k
    using that nostop by (intro sessionState_unstopped) (simp_all add: maxFrames_def)
  have "blinkCount (?st (0 + 300)) = blinkCount (?st 0) + card (debounced src 0 300)"
    by (rule sessionState_live_blinks) (simp_all add: maxFrames_def act)
  then have b300: "blinkCount (?st 300) = 10"
    by (simp add: scenario_debounced[OF blink] blinkFrames_card)
  have s100: "?st (Suc 99) = liveRound (src (Suc 99)) op (Suc 99) (?st 99)"
    by (rule sessionState_live_step) (simp_all add: act maxFrames_def)
  have s101: "?st (Suc 100) = liveRound (src (Suc 100)) op (Suc 100) (?st 100)"
    by (rule sessionState_live_step) (simp_all add: act maxFrames_def)
  have last100: "lastFacePosition (?st 100) = Some (currentPosition (det_box d1))"
    using s100 nostop f100
    by (simp add: liveRound_def processFrame_def Let_def del: sessionState.simps)
  have "headMovementDetected (?st 101)"
    using s101 nostop f101 last100 moved
    by (simp add: liveRound_def processFrame_def Let_def del: sessionState.simps)
  then have h300: "headMovementDetected (?st 300)"
    by (rule sessionState_mono_head[rotated]) simp
  have "?st (Suc 300) = closureCall src op 300 (?st 300)"
    by (simp only: sessionState.simps)
  then have fin: "?st (Suc 300) = (?st 300)\<lparr>blinkDetectionActive := False\<rparr>"
    by (simp add: closureCall_def maxFrames_def del: sessionState.simps)
  have "fst (verifyLiveness src op s) = resolve (?st (Suc 300))"
    by (simp only: verifyLiveness_sessionState maxFrames_def fst_conv)
  then show ?thesis
    unfolding fin by (simp add: resolve_def b300 h300 requiredBlinks_def)
qed

lemma sqrt_16: "sqrt 16 = 4"
  using real_sqrt_abs[of 4] by simp

lemma closedEyes_blink: "detectBlink (Some closedEyes)"
  by (simp add: detectBlink_def calculateEAR_def closedEyes_def closedEye_def Let_def js_div_def
        BLINK_THRESHOLD_def)

lemma openEyes_no_blink: "\<not> detectBlink (Some openEyes)"
  by (simp add: detectBlink_def calculateEAR_def openEyes_def openEye_def Let_def js_div_def
        BLINK_THRESHOLD_def sqrt_16)

lemma scenarioA_blinks: "rawBlink (outcome (scenarioA f)) = (f \<in> blinkFrames)"
  by (simp add: scenarioA_def rawBlink_def faceAt_def closedEyes_blink openEyes_no_blink)

lemma scenarioA_step:
  "movement (currentPosition (det_box (faceAt 120 lm))) (currentPosition (det_box (faceAt 100 lm'))) = 20"
  by (simp add: movement_def currentPosition_def faceAt_def)

lemma sessionState_head_moves:
  assumes act: "blinkDetectionActive (sessionState src op s (Suc k))"
    and lt: "Suc k < maxFrames"
    and f1: "outcome (src (Suc k)) = Face d1"
    and f2: "outcome (src (Suc (Suc k))) = Face d2"
    and mv: "movement (currentPosition (det_box d2)) (currentPosition (det_box d1)) > 10"
  shows "headMovementDetected (sessionState src op s (Suc (Suc k)))"
proof -
  let ?st = "sessionState src op s"
  have act0: "blinkDetectionActive (?st k)"
    by (rule sessionState_active_earlier[OF act]) simp
  have s1: "?st (Suc k) = liveRound (src (Suc k)) op (Suc k) (?st k)"
    using lt by (intro sessionState_live_step[OF act0]) simp
  have s2: "?st (Suc (Suc k)) = liveRound (src (Suc (Suc k))) op (Suc (Suc k)) (?st (Suc k))"
    by (rule sessionState_live_step[OF act lt])
  have pos: "lastFacePosition (?st (Suc k)) = Some (currentPosition (det_box d1))"
    unfolding s1 by (simp add: liveRound_def processFrame_def Let_def f1 stopLivenessDetection_def)
  show ?thesis
    unfolding s2 using pos mv
    by (simp add: liveRound_def processFrame_def Let_def f2 stopLivenessDetection_def
             del: sessionState.simps)
qed

lemma scenarioA_active: "k \<le> 300 \<Longrightarrow> blinkDetectionActive (sessionState scenarioA op s k)"
  by (rule sessionState_unstopped) (simp_all add: maxFrames_def scenarioA_def)

lemma scenarioA_head_101: "headMovementDetected (sessionState scenarioA op s 101)"
proof -
  have "headMovementDetected (sessionState scenarioA op s (Suc (Suc 99)))"
  proof (rule sessionState_head_moves)
    show "blinkDetectionActive (sessionState scenarioA op s (Suc 99))"
      using scenarioA_active[of 100 op s] by simp
    show "Suc 99 < maxFrames" by (simp add: maxFrames_def)
    show "outcome (scenarioA (Suc 99)) = Face (faceAt 100 (Some openEyes))"
      by (simp add: scenarioA_def blinkFrames_def)
    show "outcome (scenarioA (Suc (Suc 99))) = Face (faceAt 120 (Some openEyes))"
      by (simp add: scenarioA_def blinkFrames_def)
    show "10 < movement (currentPosition (det_box (faceAt 120 (Some openEyes))))
                        (currentPosition (det_box (faceAt 100 (Some openEyes))))"
      by (simp add: scenarioA_step)
  qed
  then show ?thesis by simp
qed

lemma sessionState_no_blinks:
  "(\<forall>f. \<not> rawBlink (outcome (src f))) \<Longrightarrow> blinkCount (sessionState src op s k) = 0"
  by (induction k) (simp_all add: closureCall_def liveRound_blinkCount)

lemma verdict_of_final_state:
  "fst (verifyLiveness src op s) = resolve (snd (verifyLiveness src op s))"
  by (simp add: verifyLiveness_sessionState del: sessionState.simps)

lemma scenarioA_verdict:
  "fst (verifyLiveness scenarioA op s) = \<lparr>success = True, blinks = 10, headMovement = True\<rparr>"
proof (rule scenario_general)
  show "\<forall>f. 1 \<le> f \<and> f \<le> 300 \<longrightarrow> rawBlink (outcome (scenarioA f)) = (f \<in> blinkFrames)"
    by (simp add: scenarioA_blinks)
  show "\<forall>f. 1 \<le> f \<and> f \<le> 300 \<longrightarrow> \<not> stopRequested (scenarioA f)"
    by (simp add: scenarioA_def)
  show "outcome (scenarioA 100) = Face (faceAt 100 (Some openEyes))"
    by (simp add: scenarioA_def blinkFrames_def)
  show "outcome (scenarioA 101) = Face (faceAt 120 (Some openEyes))"
    by (simp add: scenarioA_def blinkFrames_def)
  show "movement (currentPosition (det_box (faceAt 120 (Some openEyes))))
                 (currentPosition (det_box (faceAt 100 (Some openEyes)))) = 20"
    by (rule scenarioA_step)
qed

subsection \<open>The end of a session\<close>

lemma sessionState_end_resolved:
  "\<not> blinkDetectionActive (sessionState src op s (Suc maxFrames))"
  by (simp add: closureCall_def)

lemma sessionState_final:
  assumes "Suc maxFrames \<le> i"
  shows "sessionState src op s i = sessionState src op s (Suc maxFrames)"
proof -
  have "sessionState src op s (Suc maxFrames + (i - Suc maxFrames)) =
        sessionState src op s (Suc maxFrames)"
    by (rule sessionState_resolved[OF sessionState_end_resolved])
  then show ?thesis using assms by simp
qed

lemma sessionState_below_final:
  "blinkCount (sessionState src op s i) \<le> blinkCount (sessionState src op s (Suc maxFrames))"
  "headMovementDetected (sessionState src op s i) \<Longrightarrow>
   headMovementDetected (sessionState src op s (Suc maxFrames))"
proof -
  let ?st = "sessionState src op s"
  have eq: "?st (max i (Suc maxFrames)) = ?st (Suc maxFrames)"
    by (rule sessionState_final) simp
  have "blinkCount (?st i) \<le> blinkCount (?st (max i (Suc maxFrames)))"
    by (rule sessionState_mono_blinks) simp
  then show "blinkCount (?st i) \<le> blinkCount (?st (Suc maxFrames))"
    unfolding eq .
  assume "headMovementDetected (?st i)"
  then have "headMovementDetected (?st (max i (Suc maxFrames)))"
    by (rule sessionState_mono_head[rotated]) simp
  then show "headMovementDetected (?st (Suc maxFrames))"
    unfolding eq .
qed

lemma eyesShut_active: "k \<le> 300 \<Longrightarrow> blinkDetectionActive (sessionState eyesShut op s k)"
  by (rule sessionState_unstopped) (simp_all add: maxFrames_def eyesShut_def)

lemma eyesShut_blinks: "rawBlink (outcome (eyesShut f))"
  by (simp add: eyesShut_def rawBlink_def faceAt_def closedEyes_blink)

subsection \<open>A still photo, and eyes with seven points\<close>

lemma stillPhoto_no_blinks: "blinks (fst (verifyLiveness stillPhoto op s)) = 0"
proof -
  have "\<forall>f. \<not> rawBlink (outcome (stillPhoto f))"
    by (simp add: stillPhoto_def rawBlink_def faceAt_def openEyes_no_blink)
  then have "blinkCount (sessionState stillPhoto op s (Suc maxFrames)) = 0"
    by (rule sessionState_no_blinks)
  then show ?thesis
    by (simp add: verifyLiveness_sessionState resolve_def del: sessionState.simps)
qed

lemma stillPhoto_fails: "\<not> success (fst (verifyLiveness stillPhoto op s))"
proof -
  have "success (fst (verifyLiveness stillPhoto op s)) \<longrightarrow>
        requiredBlinks \<le> blinks (fst (verifyLiveness stillPhoto op s))"
    by (simp add: verdict_of_final_state resolve_def)
  then show ?thesis
    by (simp add: stillPhoto_no_blinks requiredBlinks_def)
qed

lemma seven_points_blink: "detectBlink (Some sevenPointEyes)"
  by (simp add: detectBlink_def calculateEAR_def sevenPointEyes_def closedEye_def Let_def
        js_div_def BLINK_THRESHOLD_def)

section \<open>The claims\<close>

text \<open>
  Claim C1. Whatever the frames, the stop requests and the module's variables before the
  call, the verdict of \<open>verifyLiveness\<close> reports the blink count and the head movement flag
  of the module as they are when the session ends, and it reports success only when that
  blink count is at least 2 and head movement was detected.
\<close>

theorem verifyLiveness_success_needs_blinks_and_movement:
  "blinks (fst (verifyLiveness src onProgress s)) = blinkCount (snd (verifyLiveness src onProgress s)) \<and>
   headMovement (fst (verifyLiveness src onProgress s)) =
     headMovementDetected (snd (verifyLiveness src onProgress s)) \<and>
   (success (fst (verifyLiveness src onProgress s)) \<longrightarrow>
      2 \<le> blinkCount (snd (verifyLiveness src onProgress s)) \<and>
      headMovementDetected (snd (verifyLiveness src onProgress s)))"
  by (simp add: verdict_of_final_state resolve_def requiredBlinks_def)

theorem verifyLiveness_success_witness:
  "success (fst (verifyLiveness scenarioA False initialModule)) \<and>
   2 \<le> blinkCount (snd (verifyLiveness scenarioA False initialModule)) \<and>
   headMovementDetected (snd (verifyLiveness scenarioA False initialModule))"
  using verifyLiveness_success_needs_blinks_and_movement[of scenarioA False initialModule]
  by (simp add: scenarioA_verdict)

text \<open>
  Claim C2, as stated, fails: the scorer reads and overwrites the module's variable
  \<open>lastFacePosition\<close>. Called twice with the same detection and the same video, starting
  from the freshly loaded module, it answers "not spoofed" the first time and "spoofed" the
  second time, and the first call has changed the module's state.
\<close>

theorem detectSpoofing_repeat_counterexample:
  "\<not> isSpoofed (fst (detectSpoofing (Some farFace) (Some camera) initialModule)) \<and>
   isSpoofed (fst (detectSpoofing (Some farFace) (Some camera)
                     (snd (detectSpoofing (Some farFace) (Some camera) initialModule)))) \<and>
   snd (detectSpoofing (Some farFace) (Some camera) initialModule) \<noteq> initialModule"
proof -
  have "\<not> js_gt (faceRatio (det_box farFace) camera) double_0_05"
    by (simp add: faceRatio_farFace double_0_05_def)
  then show ?thesis
    by (simp add: detectSpoofing_def Let_def farFace_def
          initialModule_def currentPosition_def movement_def)
qed

text \<open>
  Claim C2, amended. The verdict of the scorer is a function of the box, the frame
  geometry and the stored last face position: two calls whose detections have the same box,
  with the same video, in module states with the same \<open>lastFacePosition\<close>, return the same
  verdict. A call with both arguments present changes the module's state in one place only:
  it stores the centre of the box as \<open>lastFacePosition\<close>.
\<close>

theorem detectSpoofing_depends_on_last_position:
  "(det_box d1 = det_box d2 \<and> lastFacePosition s1 = lastFacePosition s2 \<longrightarrow>
      fst (detectSpoofing (Some d1) (Some v) s1) = fst (detectSpoofing (Some d2) (Some v) s2)) \<and>
   snd (detectSpoofing (Some d) (Some v) s) = s\<lparr>lastFacePosition := Some (currentPosition (det_box d))\<rparr>"
  by (simp add: detectSpoofing_def Let_def)

theorem detectSpoofing_depends_witness:
  "det_box farFace = det_box (farFace\<lparr>det_landmarks := None\<rparr>) \<and>
   lastFacePosition initialModule = lastFacePosition (initialModule\<lparr>blinkCount := 7\<rparr>) \<and>
   fst (detectSpoofing (Some farFace) (Some camera) initialModule) =
     fst (detectSpoofing (Some (farFace\<lparr>det_landmarks := None\<rparr>)) (Some camera)
            (initialModule\<lparr>blinkCount := 7\<rparr>)) \<and>
   snd (detectSpoofing (Some farFace) (Some camera) initialModule) =
     initialModule\<lparr>lastFacePosition := Some \<lparr>pt_x = 325, pt_y = 225\<rparr>\<rparr>"
  using detectSpoofing_depends_on_last_position[of farFace "farFace\<lparr>det_landmarks := None\<rparr>"
      initialModule "initialModule\<lparr>blinkCount := 7\<rparr>" camera farFace initialModule]
  by (simp add: farFace_def initialModule_def currentPosition_def)

text \<open>
  Claim C3, as stated, fails on the click handler of \<open>app.js\<close>: it runs no liveness
  verification and no spoof check. With a still photo in front of the camera, for which
  \<open>verifyLiveness\<close> reports failure, a click marks attendance for the best match. A click
  with no face in the frame ends in an alert that is none of the four outcomes, and a click
  whose detector call throws ends with no outcome at all.
\<close>

theorem recognizeClick_without_liveness_counterexample:
  "\<not> success (fst (verifyLiveness stillPhoto False initialModule)) \<and>
   recognizeClick firstMatch True (Resolves (Some [0, 0])) InsertOk gallery =
     ([InsertAttendance ''alice'', ConsoleLog ''Attendance marked for alice'',
       Alert ''Face recognized! Attendance marked for alice.''], Completed) \<and>
   recognizeClick firstMatch True (Resolves None) InsertOk gallery =
     ([Alert ''No face detected. Please try again.''], Completed) \<and>
   recognizeClick firstMatch True Rejects InsertOk gallery = ([], Unhandled)"
  by (simp add: stillPhoto_fails recognizeClick_def detectFace_def markAttendance_def
        firstMatch_def gallery_def)

text \<open>
  Claim C3, amended. A click on the recognise button captures the descriptor of one frame
  and, with a face captured and at least one registered face, goes straight to identity
  matching at threshold 0.6; no liveness verification or spoof check takes part. It ends in
  exactly one of: nothing (the page has no video element); the alert "no face detected";
  the alert "no registered faces"; the alert "not recognized" (the best match is labelled
  unknown); recognised (a row for the label of the best match is sent to the attendance
  table and, whether the answer carries an error or not, an alert names the label); or,
  when the detector, the matcher or the insert throws, a rejection that nothing handles,
  with no alert (the row was sent when it is the insert that throws).
\<close>

theorem recognizeClick_outcomes:
  "(\<not> hasVideo \<longrightarrow>
      recognizeClick findBestMatch hasVideo detections answer labeled = ([], Completed)) \<and>
   (hasVideo \<and> detections = Rejects \<longrightarrow>
      recognizeClick findBestMatch hasVideo detections answer labeled = ([], Unhandled)) \<and>
   (hasVideo \<and> detections = Resolves None \<longrightarrow>
      recognizeClick findBestMatch hasVideo detections answer labeled =
        ([Alert ''No face detected. Please try again.''], Completed)) \<and>
   (hasVideo \<and> detections = Resolves (Some q) \<and> labeled = [] \<longrightarrow>
      recognizeClick findBestMatch hasVideo detections answer labeled =
        ([Alert ''No registered faces found in the system.''], Completed)) \<and>
   (hasVideo \<and> detections = Resolves (Some q) \<and> labeled \<noteq> [] \<and>
    findBestMatch labeled (6 / 10) q = Rejects \<longrightarrow>
      recognizeClick findBestMatch hasVideo detections answer labeled = ([], Unhandled)) \<and>
   (hasVideo \<and> detections = Resolves (Some q) \<and> labeled \<noteq> [] \<and>
    findBestMatch labeled (6 / 10) q = Resolves m \<and> label m = ''unknown'' \<longrightarrow>
      recognizeClick findBestMatch hasVideo detections answer labeled =
        ([Alert ''Face not recognized. Please register first.''], Completed)) \<and>
   (hasVideo \<and> detections = Resolves (Some q) \<and> labeled \<noteq> [] \<and>
    findBestMatch labeled (6 / 10) q = Resolves m \<and> label m \<noteq> ''unknown'' \<and>
    answer = InsertRejected \<longrightarrow>
      recognizeClick findBestMatch hasVideo detections answer labeled =
        ([InsertAttendance (label m)], Unhandled)) \<and>
   (hasVideo \<and> detections = Resolves (Some q) \<and> labeled \<noteq> [] \<and>
    findBestMatch labeled (6 / 10) q = Resolves m \<and> label m \<noteq> ''unknown'' \<and>
    answer = InsertError \<longrightarrow>
      recognizeClick findBestMatch hasVideo detections answer labeled =
        ([InsertAttendance (label m), ConsoleError ''Error marking attendance:'',
          Alert (''Face recognized! Attendance marked for '' @ label m @ ''.'')], Completed)) \<and>
   (hasVideo \<and> detections = Resolves (Some q) \<and> labeled \<noteq> [] \<and>
    findBestMatch labeled (6 / 10) q = Resolves m \<and> label m \<noteq> ''unknown'' \<and>
    answer = InsertOk \<longrightarrow>
      recognizeClick findBestMatch hasVideo detections answer labeled =
        ([InsertAttendance (label m), ConsoleLog (''Attendance marked for '' @ label m),
          Alert (''Face recognized! Attendance marked for '' @ label m @ ''.'')], Completed)) \<and>
   (snd (recognizeClick findBestMatch hasVideo detections answer labeled) = Unhandled \<longrightarrow>
      (\<forall>t. Alert t \<notin> set (fst (recognizeClick findBestMatch hasVideo detections answer labeled))))"
proof -
  have "snd (recognizeClick findBestMatch hasVideo detections answer labeled) = Unhandled \<longrightarrow>
      (\<forall>t. Alert t \<notin> set (fst (recognizeClick findBestMatch hasVideo detections answer labeled)))"
    by (auto simp: recognizeClick_def detectFace_def markAttendance_def
          split: settled.splits option.splits insert_answer.splits if_splits)
  then show ?thesis
    by (simp add: recognizeClick_def detectFace_def markAttendance_def)
qed

theorem recognizeClick_outcomes_witness:
  "recognizeClick firstMatch False (Resolves (Some [0, 0])) InsertOk gallery = ([], Completed) \<and>
   recognizeClick firstMatch True Rejects InsertOk gallery = ([], Unhandled) \<and>
   recognizeClick firstMatch True (Resolves None) InsertOk gallery =
     ([Alert ''No face detected. Please try again.''], Completed) \<and>
   recognizeClick firstMatch True (Resolves (Some [0, 0])) InsertOk [] =
     ([Alert ''No registered faces found in the system.''], Completed) \<and>
   recognizeClick brokenMatch True (Resolves (Some [0, 0])) InsertOk gallery = ([], Unhandled) \<and>
   recognizeClick noMatch True (Resolves (Some [0, 0])) InsertOk gallery =
     ([Alert ''Face not recognized. Please register first.''], Completed) \<and>
   recognizeClick firstMatch True (Resolves (Some [0, 0])) InsertRejected gallery =
     ([InsertAttendance ''alice''], Unhandled) \<and>
   recognizeClick firstMatch True (Resolves (Some [0, 0])) InsertError gallery =
     ([InsertAttendance ''alice'', ConsoleError ''Error marking attendance:'',
       Alert ''Face recognized! Attendance marked for alice.''], Completed) \<and>
   recognizeClick firstMatch True (Resolves (Some [0, 0])) InsertOk gallery =
     ([InsertAttendance ''alice'', ConsoleLog ''Attendance marked for alice'',
       Alert ''Face recognized! Attendance marked for alice.''], Completed)"
proof -
  let ?q = "[0, 0] :: descriptor"
  let ?alice = "\<lparr>label = ''alice'', distance = 3 / 10\<rparr>"
  let ?nobody = "\<lparr>label = ''unknown'', distance = 7 / 10\<rparr>"
  have first: "firstMatch gallery (6 / 10) ?q = Resolves ?alice"
    by (simp add: firstMatch_def gallery_def)
  have none: "noMatch gallery (6 / 10) ?q = Resolves ?nobody"
    by (simp add: noMatch_def)
  have broken: "brokenMatch gallery (6 / 10) ?q = Rejects"
    by (simp add: brokenMatch_def)
  have g: "gallery \<noteq> []"
    by (simp add: gallery_def)
  show ?thesis
    using recognizeClick_outcomes[of False firstMatch "Resolves (Some ?q)" InsertOk gallery ?q ?alice]
      recognizeClick_outcomes[of True firstMatch Rejects InsertOk gallery ?q ?alice]
      recognizeClick_outcomes[of True firstMatch "Resolves None" InsertOk gallery ?q ?alice]
      recognizeClick_outcomes[of True firstMatch "Resolves (Some ?q)" InsertOk "[]" ?q ?alice]
      recognizeClick_outcomes[of True brokenMatch "Resolves (Some ?q)" InsertOk gallery ?q ?alice]
      recognizeClick_outcomes[of True noMatch "Resolves (Some ?q)" InsertOk gallery ?q ?nobody]
      recognizeClick_outcomes[of True firstMatch "Resolves (Some ?q)" InsertRejected gallery ?q ?alice]
      recognizeClick_outcomes[of True firstMatch "Resolves (Some ?q)" InsertError gallery ?q ?alice]
      recognizeClick_outcomes[of True firstMatch "Resolves (Some ?q)" InsertOk gallery ?q ?alice]
      first none broken g
    by simp
qed

text \<open>
  Claim C4, as stated, fails: in scenario A the verdict carries 10 blinks, not 2. Each of
  the ten frames 5, 10, ..., 50 is a multiple of 5 with the blink predicate true, and the
  loop counts every one of them; it does not stop counting at the required number.
\<close>

theorem scenarioA_counterexample:
  "fst (verifyLiveness scenarioA False initialModule)
     = \<lparr>success = True, blinks = 10, headMovement = True\<rparr> \<and>
   fst (verifyLiveness scenarioA False initialModule)
     \<noteq> \<lparr>success = True, blinks = 2, headMovement = True\<rparr>"
  by (simp add: scenarioA_verdict)

text \<open>
  Claim C4, amended. For a session of 300 frames that nobody stops, where the blink
  predicate is true exactly on the frames 5, 10, ..., 50 and the centres of the detections of
  frame 100 and frame 101 are 20 pixels apart, the verdict is success with 10 blinks and
  head movement, whatever the module's variables were before the call.
\<close>

theorem scenarioA_counts_every_aligned_blink:
  assumes "\<forall>f. 1 \<le> f \<and> f \<le> 300 \<longrightarrow> (rawBlink (outcome (src f)) \<longleftrightarrow> f \<in> blinkFrames)"
    and "\<forall>f. 1 \<le> f \<and> f \<le> 300 \<longrightarrow> \<not> stopRequested (src f)"
    and "outcome (src 100) = Face d1"
    and "outcome (src 101) = Face d2"
    and "movement (currentPosition (det_box d2)) (currentPosition (det_box d1)) = 20"
  shows "fst (verifyLiveness src onProgress s) = \<lparr>success = True, blinks = 10, headMovement = True\<rparr>"
  using assms by (rule scenario_general)

theorem scenarioA_counts_witness:
  "fst (verifyLiveness scenarioA True initialModule)
     = \<lparr>success = True, blinks = 10, headMovement = True\<rparr>"
proof (rule scenarioA_counts_every_aligned_blink)
  show "\<forall>f. 1 \<le> f \<and> f \<le> 300 \<longrightarrow> rawBlink (outcome (scenarioA f)) = (f \<in> blinkFrames)"
    by (simp add: scenarioA_blinks)
  show "\<forall>f. 1 \<le> f \<and> f \<le> 300 \<longrightarrow> \<not> stopRequested (scenarioA f)"
    by (simp add: scenarioA_def)
  show "outcome (scenarioA 100) = Face (faceAt 100 (Some openEyes))"
    by (simp add: scenarioA_def blinkFrames_def)
  show "outcome (scenarioA 101) = Face (faceAt 120 (Some openEyes))"
    by (simp add: scenarioA_def blinkFrames_def)
  show "movement (currentPosition (det_box (faceAt 120 (Some openEyes))))
                 (currentPosition (det_box (faceAt 100 (Some openEyes)))) = 20"
    by (rule scenarioA_step)
qed

text \<open>
  Claim C5. While the session runs, frame \<open>k + 1\<close> adds one to the blink count when its blink
  predicate is true and \<open>k + 1\<close> is a multiple of 5, and adds nothing otherwise; so ten
  consecutive observed frames with the blink predicate true add exactly 2.
\<close>

theorem blink_count_debounced:
  "(blinkDetectionActive (sessionState src onProgress s k) \<and> k < maxFrames \<longrightarrow>
      blinkCount (sessionState src onProgress s (Suc k)) =
        blinkCount (sessionState src onProgress s k)
          + (if rawBlink (outcome (src (Suc k))) \<and> Suc k mod 5 = 0 then 1 else 0)) \<and>
   (n + 10 \<le> maxFrames \<and> blinkDetectionActive (sessionState src onProgress s (n + 9)) \<and>
    (\<forall>f. n < f \<and> f \<le> n + 10 \<longrightarrow> rawBlink (outcome (src f))) \<longrightarrow>
      blinkCount (sessionState src onProgress s (n + 10)) =
        blinkCount (sessionState src onProgress s n) + 2)"
proof (intro conjI impI)
  assume "blinkDetectionActive (sessionState src onProgress s k) \<and> k < maxFrames"
  then show "blinkCount (sessionState src onProgress s (Suc k)) =
      blinkCount (sessionState src onProgress s k)
        + (if rawBlink (outcome (src (Suc k))) \<and> Suc k mod 5 = 0 then 1 else 0)"
    by (simp add: closureCall_live liveRound_blinkCount)
next
  assume "n + 10 \<le> maxFrames \<and> blinkDetectionActive (sessionState src onProgress s (n + 9)) \<and>
    (\<forall>f. n < f \<and> f \<le> n + 10 \<longrightarrow> rawBlink (outcome (src f)))"
  then show "blinkCount (sessionState src onProgress s (n + 10)) =
      blinkCount (sessionState src onProgress s n) + 2"
    using sustained_blink_window[of n src onProgress s] by blast
qed

theorem blink_count_debounced_witness:
  "blinkCount (sessionState eyesShut False initialModule (Suc 14)) =
     blinkCount (sessionState eyesShut False initialModule 14) + 1 \<and>
   blinkCount (sessionState eyesShut False initialModule (Suc 15)) =
     blinkCount (sessionState eyesShut False initialModule 15) \<and>
   blinkCount (sessionState eyesShut False initialModule (12 + 10)) =
     blinkCount (sessionState eyesShut False initialModule 12) + 2"
proof -
  have a: "blinkDetectionActive (sessionState eyesShut False initialModule k)" if "k \<le> 300" for k
    using that by (rule eyesShut_active)
  have m: "(14::nat) < maxFrames" "(15::nat) < maxFrames" "(12::nat) + 10 \<le> maxFrames"
    by (simp_all add: maxFrames_def)
  have m5: "Suc 14 mod 5 = 0" "Suc 15 mod 5 \<noteq> 0" by simp_all
  show ?thesis
    using blink_count_debounced[of eyesShut False initialModule 14 12]
      blink_count_debounced[of eyesShut False initialModule 15 12]
      a[of 14] a[of 15] a[of "12 + 9"] m m5 eyesShut_blinks
    by (simp del: sessionState.simps)
qed

text \<open>
  Claim C7, as stated, fails next to a bound: the program compares the ratio it has
  computed in binary64, not the ratio of the areas. The box of \<open>roundingFace\<close> has an area
  strictly between 0.05 and 0.4 of the frame of \<open>tallCamera\<close>, but the quotient rounds to
  the binary64 value of the literal 0.05, and \<open>sizeConsistency\<close> is false.
\<close>

theorem sizeConsistency_rounding_counterexample:
  "5 / 100 < box_width (det_box roundingFace) * box_height (det_box roundingFace)
               / (real (videoWidth tallCamera) * real (videoHeight tallCamera)) \<and>
   box_width (det_box roundingFace) * box_height (det_box roundingFace)
     / (real (videoWidth tallCamera) * real (videoHeight tallCamera)) < 4 / 10 \<and>
   map_option sizeConsistency
     (details (fst (detectSpoofing (Some roundingFace) (Some tallCamera) initialModule))) = Some False"
proof -
  have "map_option sizeConsistency
     (details (fst (detectSpoofing (Some roundingFace) (Some tallCamera) initialModule))) = Some False"
    by (simp add: sizeConsistency_at[OF faceRatio_roundingFace])
  moreover have "box_width (det_box roundingFace) * box_height (det_box roundingFace)
      / (real (videoWidth tallCamera) * real (videoHeight tallCamera)) = (32760 + 1 / 2 ^ 38) / 655200"
    by (simp add: roundingFace_def tallCamera_def)
  moreover have "5 / 100 < (32760 + 1 / 2 ^ 38) / (655200::real)"
    "(32760 + 1 / 2 ^ 38) / (655200::real) < 4 / 10"
    by simp_all
  ultimately show ?thesis
    by (simp only: simp_thms)
qed

text \<open>
  Claim C7, amended. For every box and video, \<open>sizeConsistency\<close> is true exactly when the
  face ratio as the program computes it (the binary64 quotient of the binary64 products
  \<open>width * height\<close> and \<open>videoWidth * videoHeight\<close>) is a finite number strictly between
  the binary64 values of the literals 0.05 and 0.4; where the computed ratio is one of
  these two values, \<open>sizeConsistency\<close> is false.
\<close>

theorem sizeConsistency_open_interval:
  "map_option sizeConsistency (details (fst (detectSpoofing (Some d) (Some v) s))) =
     Some (\<exists>q. faceRatio (det_box d) v = Finite q \<and> double_0_05 < q \<and> q < double_0_4) \<and>
   (faceRatio (det_box d) v = Finite double_0_05 \<longrightarrow>
      map_option sizeConsistency (details (fst (detectSpoofing (Some d) (Some v) s))) = Some False) \<and>
   (faceRatio (det_box d) v = Finite double_0_4 \<longrightarrow>
      map_option sizeConsistency (details (fst (detectSpoofing (Some d) (Some v) s))) = Some False) \<and>
   (\<forall>a c. binary64 (box_width (det_box d) * box_height (det_box d)) = Finite a \<and>
          binary64 (real (videoWidth v) * real (videoHeight v)) = Finite c \<and> c \<noteq> 0 \<longrightarrow>
          faceRatio (det_box d) v = binary64 (a / c)) \<and>
   binary64 (5 / 100) = Finite double_0_05 \<and> binary64 (4 / 10) = Finite double_0_4"
proof -
  let ?sc = "map_option sizeConsistency (details (fst (detectSpoofing (Some d) (Some v) s)))"
  have "?sc = Some (\<exists>q. faceRatio (det_box d) v = Finite q \<and> double_0_05 < q \<and> q < double_0_4)"
    by (simp only: detectSpoofing_sizeConsistency between_bounds)
  moreover have "faceRatio (det_box d) v = Finite double_0_05 \<longrightarrow> ?sc = Some False"
    by (simp add: sizeConsistency_at)
  moreover have "faceRatio (det_box d) v = Finite double_0_4 \<longrightarrow> ?sc = Some False"
    by (simp add: sizeConsistency_at)
  moreover have "\<forall>a c. binary64 (box_width (det_box d) * box_height (det_box d)) = Finite a \<and>
          binary64 (real (videoWidth v) * real (videoHeight v)) = Finite c \<and> c \<noteq> 0 \<longrightarrow>
          faceRatio (det_box d) v = binary64 (a / c)"
    using faceRatio_ordinary by blast
  moreover have "binary64 (5 / 100) = Finite double_0_05" "binary64 (4 / 10) = Finite double_0_4"
    by (rule binary64_literals)+
  ultimately show ?thesis
    by (simp only: simp_thms)
qed

theorem sizeConsistency_boundary_witness:
  "faceRatio (det_box lowerBoundFace) camera = Finite double_0_05 \<and>
   map_option sizeConsistency
     (details (fst (detectSpoofing (Some lowerBoundFace) (Some camera) initialModule))) = Some False \<and>
   faceRatio (det_box upperBoundFace) camera = Finite double_0_4 \<and>
   map_option sizeConsistency
     (details (fst (detectSpoofing (Some upperBoundFace) (Some camera) initialModule))) = Some False \<and>
   map_option sizeConsistency
     (details (fst (detectSpoofing (Some (faceAt 100 None)) (Some camera) initialModule))) = Some True"
proof -
  have q: "double_0_05 < 7148570837096025 / 2 ^ 56" "7148570837096025 / 2 ^ 56 < double_0_4"
    by (simp_all add: double_0_05_def double_0_4_def)
  have inside: "\<exists>q. faceRatio (det_box (faceAt 100 None)) camera = Finite q \<and>
                    double_0_05 < q \<and> q < double_0_4"
    using faceRatio_faceAt[of 100 None] q by blast
  have low: "map_option sizeConsistency
     (details (fst (detectSpoofing (Some lowerBoundFace) (Some camera) initialModule))) = Some False"
    using sizeConsistency_open_interval[of lowerBoundFace camera initialModule]
      faceRatio_lowerBoundFace by blast
  have up: "map_option sizeConsistency
     (details (fst (detectSpoofing (Some upperBoundFace) (Some camera) initialModule))) = Some False"
    using sizeConsistency_open_interval[of upperBoundFace camera initialModule]
      faceRatio_upperBoundFace by blast
  have mid: "map_option sizeConsistency
     (details (fst (detectSpoofing (Some (faceAt 100 None)) (Some camera) initialModule))) = Some True"
    using sizeConsistency_open_interval[of "faceAt 100 None" camera initialModule] inside
    by simp
  show ?thesis
    using low up mid faceRatio_lowerBoundFace faceRatio_upperBoundFace by blast
qed

text \<open>
  Claim C8. Along the states of one session, the blink count never decreases and the head
  movement flag, once true, stays true: this holds between any two states of the session,
  and between any state of the session and the verdict.
\<close>

theorem session_counters_never_go_back:
  "i \<le> j \<Longrightarrow>
   blinkCount (sessionState src onProgress s i) \<le> blinkCount (sessionState src onProgress s j) \<and>
   (headMovementDetected (sessionState src onProgress s i) \<longrightarrow>
      headMovementDetected (sessionState src onProgress s j)) \<and>
   blinkCount (sessionState src onProgress s i) \<le> blinks (fst (verifyLiveness src onProgress s)) \<and>
   (headMovementDetected (sessionState src onProgress s i) \<longrightarrow>
      headMovement (fst (verifyLiveness src onProgress s)))"
proof -
  assume le: "i \<le> j"
  let ?st = "sessionState src onProgress s"
  have fin: "fst (verifyLiveness src onProgress s) = resolve (?st (Suc maxFrames))"
    by (simp only: verifyLiveness_sessionState fst_conv)
  have "blinkCount (?st i) \<le> blinkCount (?st j)"
    using le by (rule sessionState_mono_blinks)
  moreover have "headMovementDetected (?st i) \<longrightarrow> headMovementDetected (?st j)"
    using le sessionState_mono_head by blast
  moreover have "blinkCount (?st i) \<le> blinks (fst (verifyLiveness src onProgress s))"
    unfolding fin using sessionState_below_final(1)[of src onProgress s i]
    by (simp add: resolve_def del: sessionState.simps)
  moreover have "headMovementDetected (?st i) \<longrightarrow> headMovement (fst (verifyLiveness src onProgress s))"
    unfolding fin using sessionState_below_final(2)[of src onProgress s i]
    by (simp add: resolve_def del: sessionState.simps)
  ultimately show ?thesis by blast
qed

theorem session_counters_witness:
  "(101::nat) \<le> 200 \<and>
   blinkCount (sessionState scenarioA False initialModule 101)
     \<le> blinkCount (sessionState scenarioA False initialModule 200) \<and>
   headMovementDetected (sessionState scenarioA False initialModule 101) \<and>
   headMovementDetected (sessionState scenarioA False initialModule 200) \<and>
   blinkCount (sessionState scenarioA False initialModule 101)
     \<le> blinks (fst (verifyLiveness scenarioA False initialModule)) \<and>
   headMovement (fst (verifyLiveness scenarioA False initialModule))"
proof -
  have le: "(101::nat) \<le> 200" by simp
  show ?thesis
    using session_counters_never_go_back[OF le, of scenarioA False initialModule]
      scenarioA_head_101[of False initialModule] le
    by blast
qed




text \<open>
  Claim C10. When the detection or the video is absent, the scorer returns the verdict
  \<open>{isSpoofed: false, confidence: 0}\<close> and leaves the module's state, the stored last face
  position included, as it was.
\<close>

theorem detectSpoofing_absent_argument:
  "detection = None \<or> video = None \<Longrightarrow>
   detectSpoofing detection video s = (\<lparr>isSpoofed = False, confidence = 0, details = None\<rparr>, s) \<and>
   lastFacePosition (snd (detectSpoofing detection video s)) = lastFacePosition s \<and>
   \<not> isSpoofed (fst (detectSpoofing detection video s))"
  by (simp add: detectSpoofing_None)

theorem detectSpoofing_absent_witness:
  "detectSpoofing None (Some camera) (initialModule\<lparr>lastFacePosition := Some \<lparr>pt_x = 1, pt_y = 2\<rparr>\<rparr>)
     = (\<lparr>isSpoofed = False, confidence = 0, details = None\<rparr>,
        initialModule\<lparr>lastFacePosition := Some \<lparr>pt_x = 1, pt_y = 2\<rparr>\<rparr>) \<and>
   detectSpoofing (Some farFace) None initialModule
     = (\<lparr>isSpoofed = False, confidence = 0, details = None\<rparr>, initialModule)"
  using detectSpoofing_absent_argument[of None "Some camera"
      "initialModule\<lparr>lastFacePosition := Some \<lparr>pt_x = 1, pt_y = 2\<rparr>\<rparr>"]
    detectSpoofing_absent_argument[of "Some farFace" None initialModule]
  by simp

end
